theory Spec2Isabelle
  imports Complex_Main "HOL-Library.Sublist"
begin

section \<open>The profile browser of gitbuddy-viewer (src/Component/Body1.js)\<close>

text \<open>
  The component \<open>Body1\<close> keeps its state in React hooks and changes it from event
  handlers and from the continuations of two asynchronous functions. The embedding
  passes the state explicitly: every handler and every continuation is a function from
  the state to the new state. An asynchronous function is cut at its \<open>await\<close>: one
  function runs it up to the request, a second one (\<open>_settled\<close>) runs the rest when the
  promise settles, on the state of that moment. A handler belongs to the latest render,
  so the state it reads is the current one. Strings are \<open>char list\<close>s of bytes; the
  model is exact for ASCII text, which is what GitHub logins and the numeric input
  consist of.
\<close>

subsection \<open>JavaScript strings: \<open>toLowerCase\<close>, \<open>trim\<close>, \<open>includes\<close>\<close>

definition toLowerChar :: "char \<Rightarrow> char" where
  "toLowerChar c =
     (let n = (of_char c :: nat) in if 65 \<le> n \<and> n \<le> 90 then char_of (n + 32) else c)"

definition toLowerCase :: "string \<Rightarrow> string" where
  "toLowerCase s = map toLowerChar s"

text \<open>White space of \<open>String.prototype.trim\<close> and of \<open>StringToNumber\<close>, in ASCII:
  TAB, LF, VT, FF, CR and SP.\<close>

definition isWhiteSpace :: "char \<Rightarrow> bool" where
  "isWhiteSpace c = (let n = (of_char c :: nat) in (9 \<le> n \<and> n \<le> 13) \<or> n = 32)"

definition trim :: "string \<Rightarrow> string" where
  "trim s = rev (dropWhile isWhiteSpace (rev (dropWhile isWhiteSpace s)))"

fun startsWith :: "string \<Rightarrow> string \<Rightarrow> bool" where
  "startsWith s [] = True"
| "startsWith [] (c # t) = False"
| "startsWith (d # s) (c # t) = (d = c \<and> startsWith s t)"

text \<open>\<open>s.includes(t)\<close>: \<open>t\<close> occurs in \<open>s\<close> at some position.\<close>

fun js_includes :: "string \<Rightarrow> string \<Rightarrow> bool" where
  "js_includes [] t = (t = [])"
| "js_includes (d # s) t = (startsWith (d # s) t \<or> js_includes s t)"

subsection \<open>JavaScript numbers and \<open>Number(raw)\<close>\<close>

text \<open>
  A JavaScript number is a double. Every finite double is a rational, and the
  comparisons with 1 and 100 and \<open>Math.floor\<close> are exact on doubles, so a finite
  number is carried as the rational it denotes. The sign of zero is dropped:
  \<open>+0\<close> and \<open>-0\<close> are both \<open>Finite 0\<close>, and both are falsy.
\<close>

datatype js_number = NaN | PosInf | NegInf | Finite rat

text \<open>Rounding an exact value to the nearest double (binary64, ties to even): 53 bits
  of mantissa, subnormals below \<open>pow2 (- 1022)\<close>, infinity from \<open>pow2 1024\<close> on.\<close>

definition pow2 :: "int \<Rightarrow> rat" where
  "pow2 e = (if 0 \<le> e then 2 ^ nat e else 1 / 2 ^ nat (- e))"

function bitLength :: "int \<Rightarrow> int" where
  "bitLength n = (if n \<le> 0 then 0 else 1 + bitLength (n div 2))"
  by pat_completeness auto
termination
  by (relation "measure nat") auto

declare bitLength.simps [simp del]

definition floorLog2 :: "rat \<Rightarrow> int" where
  "floorLog2 a =
     (if 1 \<le> a then bitLength \<lfloor>a\<rfloor> - 1
      else - bitLength (\<lceil>1 / a\<rceil> - 1))"

definition roundHalfEven :: "rat \<Rightarrow> int" where
  "roundHalfEven x =
     (let f = \<lfloor>x\<rfloor>; d = x - of_int f
      in if d < 1 / 2 then f else if 1 / 2 < d then f + 1 else if even f then f else f + 1)"

definition roundMagnitude :: "rat \<Rightarrow> rat" where
  "roundMagnitude a =
     (let e = max (floorLog2 a) (- 1022); ulp = pow2 (e - 52)
      in of_int (roundHalfEven (a / ulp)) * ulp)"

definition toDouble :: "rat \<Rightarrow> js_number" where
  "toDouble q =
     (if q = 0 then Finite 0
      else let r = roundMagnitude \<bar>q\<bar>
           in if pow2 1024 \<le> r then (if 0 < q then PosInf else NegInf)
              else Finite (if 0 < q then r else - r))"

text \<open>
  \<open>StringToNumber\<close> of ECMA-262: white space is trimmed, the empty string is 0, a
  literal is a binary, octal or hexadecimal integer (\<open>0b\<close>, \<open>0o\<close>, \<open>0x\<close>, unsigned),
  or an optionally signed \<open>Infinity\<close> or decimal literal with optional fraction and
  exponent; anything else is \<open>NaN\<close>. The mathematical value of the literal is rounded
  to a double.
\<close>

definition digitValue :: "char \<Rightarrow> int" where
  "digitValue c =
     (let n = (of_char c :: int)
      in if 48 \<le> n \<and> n \<le> 57 then n - 48
         else if 97 \<le> n \<and> n \<le> 102 then n - 87
         else if 65 \<le> n \<and> n \<le> 70 then n - 55
         else 16)"

definition isDigitOf :: "int \<Rightarrow> char \<Rightarrow> bool" where
  "isDigitOf b c = (digitValue c < b)"

definition digitsValue :: "int \<Rightarrow> string \<Rightarrow> int" where
  "digitsValue b ds = foldl (\<lambda>acc c. acc * b + digitValue c) 0 ds"

definition pow10 :: "int \<Rightarrow> rat" where
  "pow10 e = (if 0 \<le> e then 10 ^ nat e else 1 / 10 ^ nat (- e))"

definition exponentPart :: "string \<Rightarrow> int option" where
  "exponentPart s =
     (case s of
        [] \<Rightarrow> Some 0
      | c # t \<Rightarrow>
          if c = CHR ''e'' \<or> c = CHR ''E'' then
            (let (neg, ds) =
                   (case t of
                      [] \<Rightarrow> (False, [])
                    | d # u \<Rightarrow> if d = CHR ''-'' then (True, u)
                               else if d = CHR ''+'' then (False, u) else (False, t))
             in if ds \<noteq> [] \<and> list_all (isDigitOf 10) ds
                then Some (if neg then - digitsValue 10 ds else digitsValue 10 ds)
                else None)
          else None)"

definition unsignedDecimal :: "string \<Rightarrow> rat option" where
  "unsignedDecimal s =
     (let ip = takeWhile (isDigitOf 10) s; r1 = dropWhile (isDigitOf 10) s;
          (fp, r2) =
             (case r1 of
                [] \<Rightarrow> ([], [])
              | c # t \<Rightarrow> if c = CHR ''.'' then (takeWhile (isDigitOf 10) t, dropWhile (isDigitOf 10) t)
                         else ([], r1))
      in if ip = [] \<and> fp = [] then None
         else (case exponentPart r2 of
                 None \<Rightarrow> None
               | Some e \<Rightarrow> Some (of_int (digitsValue 10 (ip @ fp)) * pow10 (e - int (length fp)))))"

definition nonDecimalInteger :: "string \<Rightarrow> int option" where
  "nonDecimalInteger s =
     (case s of
        z # p # ds \<Rightarrow>
          if z = CHR ''0'' \<and> ds \<noteq> [] then
            (let b = (if p = CHR ''x'' \<or> p = CHR ''X'' then 16
                      else if p = CHR ''o'' \<or> p = CHR ''O'' then 8
                      else if p = CHR ''b'' \<or> p = CHR ''B'' then 2 else 0)
             in if b \<noteq> 0 \<and> list_all (isDigitOf b) ds then Some (digitsValue b ds) else None)
          else None
      | _ \<Rightarrow> None)"

definition strDecimalLiteral :: "string \<Rightarrow> js_number" where
  "strDecimalLiteral s =
     (let (neg, u) =
            (case s of
               [] \<Rightarrow> (False, [])
             | c # t \<Rightarrow> if c = CHR ''-'' then (True, t)
                        else if c = CHR ''+'' then (False, t) else (False, s))
      in if u = ''Infinity'' then (if neg then NegInf else PosInf)
         else (case unsignedDecimal u of
                 None \<Rightarrow> NaN
               | Some q \<Rightarrow> toDouble (if neg then - q else q)))"

definition stringToNumber :: "string \<Rightarrow> js_number" where
  "stringToNumber raw =
     (let s = trim raw
      in if s = [] then Finite 0
         else (case nonDecimalInteger s of
                 Some n \<Rightarrow> toDouble (of_int n)
               | None \<Rightarrow> strDecimalLiteral s))"

text \<open>The argument of \<open>safeCount\<close> is the text of the input field, or a number (the
  handlers pass \<open>numberOfProfile || DEFAULT_COUNT\<close>, and \<open>generateProfile\<close> passes the
  count it was given). \<open>Number(raw)\<close> parses a string and leaves a number as it is.\<close>

datatype js_value = JString string | JNumber js_number

definition toNumber :: "js_value \<Rightarrow> js_number" where
  "toNumber raw = (case raw of JString s \<Rightarrow> stringToNumber s | JNumber n \<Rightarrow> n)"

text \<open>\<open>!n\<close> is true of 0 and of NaN; a comparison with NaN is false.\<close>

definition falsy :: "js_number \<Rightarrow> bool" where
  "falsy n = (n = Finite 0 \<or> n = NaN)"

definition isNaN :: "js_number \<Rightarrow> bool" where
  "isNaN n = (n = NaN)"

fun js_less :: "js_number \<Rightarrow> js_number \<Rightarrow> bool" where
  "js_less NaN b = False"
| "js_less a NaN = False"
| "js_less PosInf b = False"
| "js_less NegInf NegInf = False"
| "js_less NegInf b = True"
| "js_less (Finite x) PosInf = True"
| "js_less (Finite x) NegInf = False"
| "js_less (Finite x) (Finite y) = (x < y)"

fun mathFloor :: "js_number \<Rightarrow> js_number" where
  "mathFloor (Finite x) = Finite (of_int \<lfloor>x\<rfloor>)"
| "mathFloor n = n"

text \<open>\<open>a + b\<close> and \<open>a * b\<close> on numbers: the exact result rounded to a double.\<close>

fun jsAdd :: "js_number \<Rightarrow> js_number \<Rightarrow> js_number" where
  "jsAdd NaN b = NaN"
| "jsAdd a NaN = NaN"
| "jsAdd PosInf NegInf = NaN"
| "jsAdd NegInf PosInf = NaN"
| "jsAdd PosInf b = PosInf"
| "jsAdd NegInf b = NegInf"
| "jsAdd (Finite x) PosInf = PosInf"
| "jsAdd (Finite x) NegInf = NegInf"
| "jsAdd (Finite x) (Finite y) = toDouble (x + y)"

definition timesInfinity :: "bool \<Rightarrow> rat \<Rightarrow> js_number" where
  "timesInfinity positive x =
     (if x = 0 then NaN else if (0 < x) = positive then PosInf else NegInf)"

fun jsMul :: "js_number \<Rightarrow> js_number \<Rightarrow> js_number" where
  "jsMul NaN b = NaN"
| "jsMul a NaN = NaN"
| "jsMul PosInf PosInf = PosInf"
| "jsMul PosInf NegInf = NegInf"
| "jsMul NegInf PosInf = NegInf"
| "jsMul NegInf NegInf = PosInf"
| "jsMul PosInf (Finite y) = timesInfinity True y"
| "jsMul NegInf (Finite y) = timesInfinity False y"
| "jsMul (Finite x) PosInf = timesInfinity True x"
| "jsMul (Finite x) NegInf = timesInfinity False x"
| "jsMul (Finite x) (Finite y) = toDouble (x * y)"

subsection \<open>The count normalizer\<close>

definition DEFAULT_COUNT :: js_number where
  "DEFAULT_COUNT = Finite 10"

text \<open>
  \<^verbatim>\<open>const safeCount = (raw) => {
    const n = Number(raw);
    if (!n || isNaN(n)) return DEFAULT_COUNT;
    if (n < 1) return 1;
    if (n > 100) return 100;
    return Math.floor(n);
  };\<close>
\<close>

definition safeCount :: "js_value \<Rightarrow> js_number" where
  "safeCount raw =
     (let n = toNumber raw
      in if falsy n \<or> isNaN n then DEFAULT_COUNT
         else if js_less n (Finite 1) then Finite 1
         else if js_less (Finite 100) n then Finite 100
         else mathFloor n)"

subsection \<open>The data of the component\<close>

text \<open>An element of the array the list endpoint returns; \<open>id\<close> is a JavaScript
  number.\<close>

record user =
  login :: string
  id_of :: js_number
  avatar_url :: string
  html_url :: string
  repos_url :: string

subsection \<open>Debounced search and the derived filter\<close>

text \<open>The value the debounce timer stores once the input has been stable for 350 ms:
  \<open>setDebouncedSearch(searchInput.trim().toLowerCase())\<close>.\<close>

definition debounced :: "string \<Rightarrow> string" where
  "debounced searchInput = toLowerCase (trim searchInput)"

text \<open>\<open>profile.filter((p) => p.login.toLowerCase().includes(debouncedSearch))\<close>.\<close>

definition filteredProfiles :: "user list \<Rightarrow> string \<Rightarrow> user list" where
  "filteredProfiles profile debouncedSearch =
     filter (\<lambda>p. js_includes (toLowerCase (login p)) debouncedSearch) profile"

subsection \<open>The state of the component and of its environment\<close>

text \<open>A detail entry is one of the three object literals \<open>fetchUserDetails\<close> stores:
  \<open>{ loading: true }\<close>, the fetched fields with \<open>fetchedAt\<close> and \<open>loading: false\<close>, and
  \<open>{ loading: false, error: true }\<close>. \<open>obj.followers ?? dash\<close> is a count or the dash.\<close>

datatype follow_count = Count int | Dash

datatype detail =
    DLoading
  | DReady follow_count follow_count string string string int
  | DError

text \<open>\<open>existing.fetchedAt\<close>: undefined on the two literals that have no such field.\<close>

fun fetchedAt :: "detail \<Rightarrow> int option" where
  "fetchedAt (DReady followers following bio location company t) = Some t"
| "fetchedAt d = None"

text \<open>The object of the detail endpoint; \<open>None\<close> is a field that is null or absent.\<close>

record details_obj =
  followers :: "int option"
  following :: "int option"
  bio :: "string option"
  location :: "string option"
  company :: "string option"

text \<open>What \<open>fetch\<close> and \<open>res.json()\<close> give back: a promise that rejects with an error
  or resolves; a response has \<open>ok\<close>, \<open>status\<close>, \<open>statusText\<close> and a body whose
  parsing may reject in turn.\<close>

datatype js_error = Error (err_name: string) (err_message: string)

datatype 'a response =
  Response (ok: bool) (status: nat) (statusText: string) (json: "js_error + 'a")

datatype 'a fetch_result = Rejected js_error | Resolved "'a response"

definition AbortError :: js_error where
  "AbortError = Error ''AbortError'' ''The user aborted a request.''"

text \<open>The calls of \<open>fetch\<close>: the list endpoint with \<open>since\<close>, \<open>per_page\<close> and the
  controller whose signal it carries, and the detail endpoint with the login.\<close>

datatype request = ListFetch js_number js_number nat | DetailFetch string

text \<open>
  The hooks of \<open>Body1\<close>, and what the component shares with its environment: the
  controllers on which \<open>abort()\<close> has been called, the number of controllers created
  (the next controller's identity) and the log of the network requests issued.
\<close>

record state =
  profile :: "user list"
  numberOfProfile :: string
  loading :: bool
  loadingMore :: bool
  error :: string
  searchInput :: string
  debouncedSearch :: string
  sinceCursor :: "js_number option"
  detailsMap :: "string \<rightharpoonup> detail"
  message :: string
  abortRef :: "nat option"
  aborted :: "nat list"
  controllers :: nat
  network :: "request list"

definition initial :: state where
  "initial =
     \<lparr>profile = [], numberOfProfile = [], loading = False, loadingMore = False, error = [],
      searchInput = [], debouncedSearch = [], sinceCursor = None, detailsMap = Map.empty,
      message = [], abortRef = None, aborted = [], controllers = 0, network = []\<rparr>"

text \<open>Template strings print a number in decimal.\<close>

fun showNat :: "nat \<Rightarrow> string" where
  "showNat n =
     (if n < 10 then [char_of (48 + n)] else showNat (n div 10) @ [char_of (48 + n mod 10)])"

declare showNat.simps [simp del]

text \<open>\<open>flashMessage\<close> sets the message; its timer clears it 2000 ms later.\<close>

definition flashMessage :: "string \<Rightarrow> state \<Rightarrow> state" where
  "flashMessage txt st = st\<lparr>message := txt\<rparr>"

definition flashMessage_timeout :: "state \<Rightarrow> state" where
  "flashMessage_timeout st = st\<lparr>message := []\<rparr>"

subsection \<open>The search handlers\<close>

text \<open>
  The search term is written in two places only: by the debounce timer, 350 ms after
  the last keystroke, and by the button Clear.
  \<^verbatim>\<open>    debounceTimerRef.current = setTimeout(() => {
      setDebouncedSearch(searchInput.trim().toLowerCase());
    }, 350);

    onClick={() => {
      setSearchInput("");
      setDebouncedSearch("");
      flashMessage("Search cleared");
    }}\<close>
\<close>

definition debounceFired :: "state \<Rightarrow> state" where
  "debounceFired st = st\<lparr>debouncedSearch := debounced (searchInput st)\<rparr>"

definition clickClear :: "state \<Rightarrow> state" where
  "clickClear st = flashMessage ''Search cleared'' (st\<lparr>searchInput := [], debouncedSearch := []\<rparr>)"

text \<open>The list the component renders.\<close>

definition rendered :: "state \<Rightarrow> user list" where
  "rendered st = filteredProfiles (profile st) (debouncedSearch st)"

subsection \<open>The list fetcher\<close>

text \<open>
  \<open>generateProfile(countPages, append)\<close> up to \<open>await fetch(...)\<close>: it clears the
  error, aborts the controller the ref holds, stores a new controller in the ref, raises
  the loading flag of its mode, chooses \<open>since\<close> and issues the request.
  \<open>random\<close> is the value of \<open>Math.random()\<close>, a double from 0 up to 1, and
  \<open>Math.floor(1 + Math.random() * 10000)\<close> is computed in doubles. The cursor is used
  when \<open>append && sinceCursor\<close>: the cursor is neither null nor 0 nor NaN.
  \<^verbatim>\<open>    let since = Math.floor(1 + Math.random() * 10000);
    if (append && sinceCursor) {
      since = sinceCursor;
    }\<close>
\<close>

definition generateProfile :: "js_value \<Rightarrow> bool \<Rightarrow> rat \<Rightarrow> state \<Rightarrow> state" where
  "generateProfile countPages append' random st =
     (let st1 = st\<lparr>error := []\<rparr>;
          count = safeCount countPages;
          st2 = (case abortRef st1 of
                   None \<Rightarrow> st1
                 | Some c \<Rightarrow> st1\<lparr>aborted := c # aborted st1\<rparr>);
          controller = controllers st2;
          st3 = st2\<lparr>controllers := Suc controller, abortRef := Some controller\<rparr>;
          st4 = (if append' then st3\<lparr>loadingMore := True\<rparr> else st3\<lparr>loading := True\<rparr>);
          since0 = mathFloor (jsAdd (Finite 1) (jsMul (Finite random) (Finite 10000)));
          since = (case sinceCursor st of
                     None \<Rightarrow> since0
                   | Some c \<Rightarrow> if append' \<and> \<not> falsy c then c else since0)
      in st4\<lparr>network := network st4 @ [ListFetch since count controller]\<rparr>)"

text \<open>
  What the awaited calls throw or return. A fetch whose controller has been aborted
  rejects with an \<open>AbortError\<close>, whatever the server did; otherwise a rejection of
  \<open>fetch\<close> is thrown, a response that is not \<open>ok\<close> throws
  \<open>new Error(`GitHub API error: ${res.status} ${res.statusText}`)\<close>, and
  \<open>res.json()\<close> throws or gives the array.
\<close>

definition listOutcome :: "nat \<Rightarrow> user list fetch_result \<Rightarrow> state \<Rightarrow> js_error + user list" where
  "listOutcome controller result st =
     (if controller \<in> set (aborted st) then Inl AbortError
      else (case result of
              Rejected err \<Rightarrow> Inl err
            | Resolved res \<Rightarrow>
                if \<not> ok res
                then Inl (Error ''Error''
                       (''GitHub API error: '' @ showNat (status res) @ '' '' @ statusText res))
                else json res))"

text \<open>
  The rest of \<open>generateProfile\<close>, run when the awaited promise settles; \<open>append\<close> and
  \<open>controller\<close> are the variables of the call that is resumed.
  \<^verbatim>\<open>    if (Array.isArray(data) && data.length > 0) {
        const lastId = data[data.length - 1].id;
        setSinceCursor(lastId + 1);
      }
      setProfile((prev) => (append ? [...prev, ...data] : data));
      flashMessage(append ? `Appended ...` : `Loaded ...`);
    } catch (err) {
      if (err.name === "AbortError") {
      } else {
        setError(err.message || "Failed to load profiles.");
        setProfile((p) => (append ? p : []));
      }
    } finally {
      setLoading(false);
      setLoadingMore(false);
      abortRef.current = null;
    }\<close>
\<close>

definition generateProfile_settled ::
  "bool \<Rightarrow> nat \<Rightarrow> user list fetch_result \<Rightarrow> state \<Rightarrow> state" where
  "generateProfile_settled append' controller result st =
     (let st1 =
            (case listOutcome controller result st of
               Inr data \<Rightarrow>
                 (let st2 = (if data \<noteq> []
                             then st\<lparr>sinceCursor := Some (jsAdd (id_of (last data)) (Finite 1))\<rparr>
                             else st);
                      st3 = st2\<lparr>profile := (if append' then profile st2 @ data else data)\<rparr>
                  in flashMessage
                       ((if append' then ''Appended '' else ''Loaded '')
                          @ showNat (length data) @ '' profiles'') st3)
             | Inl err \<Rightarrow>
                 if err_name err = ''AbortError'' then st
                 else st\<lparr>error := (if err_message err = [] then ''Failed to load profiles.''
                                    else err_message err),
                         profile := (if append' then profile st else [])\<rparr>)
      in st1\<lparr>loading := False, loadingMore := False, abortRef := None\<rparr>)"

text \<open>The effect that runs once on mount, and the buttons Load and Load More
  (disabled while their own flag is up).\<close>

definition mount :: "rat \<Rightarrow> state \<Rightarrow> state" where
  "mount random st = generateProfile (JNumber DEFAULT_COUNT) False random st"

definition countInput :: "state \<Rightarrow> js_value" where
  "countInput st =
     (if numberOfProfile st = [] then JNumber DEFAULT_COUNT else JString (numberOfProfile st))"

definition clickLoad :: "rat \<Rightarrow> state \<Rightarrow> state" where
  "clickLoad random st =
     (if loading st then st
      else generateProfile (JNumber (safeCount (countInput st))) False random st)"

definition clickLoadMore :: "rat \<Rightarrow> state \<Rightarrow> state" where
  "clickLoadMore random st =
     (if loadingMore st then st
      else generateProfile (JNumber (safeCount (countInput st))) True random st)"

subsection \<open>The detail fetcher\<close>

text \<open>
  \<open>fetchUserDetails(login)\<close> up to \<open>await fetch(...)\<close>; \<open>now\<close> is \<open>Date.now()\<close>.
  \<^verbatim>\<open>    if (!login) return;
    const existing = detailsMap[login];
    if (existing && Date.now() - (existing.fetchedAt || 0) < 1000 * 60 * 5) {
      return;
    }
    setDetailsMap((d) => ({ ...d, [login]: { loading: true } }));
    const resp = await fetch(`https://api.github.com/users/${login}`);\<close>
\<close>

definition fetchedAtOr0 :: "detail \<Rightarrow> int" where
  "fetchedAtOr0 existing = (case fetchedAt existing of None \<Rightarrow> 0 | Some t \<Rightarrow> t)"

text \<open>
  \<open>detailsMap\<close> is a plain object, so \<open>detailsMap[login]\<close> of a login without an entry
  is undefined unless the login names a member the object inherits from
  \<open>Object.prototype\<close>: then it is that member, which is truthy and has no
  \<open>fetchedAt\<close>.
\<close>

definition inheritedMembers :: "string list" where
  "inheritedMembers =
     [''constructor'', ''hasOwnProperty'', ''isPrototypeOf'', ''propertyIsEnumerable'',
      ''toLocaleString'', ''toString'', ''valueOf'', ''__proto__'', ''__defineGetter__'',
      ''__defineSetter__'', ''__lookupGetter__'', ''__lookupSetter__'']"

definition isFresh :: "(string \<rightharpoonup> detail) \<Rightarrow> string \<Rightarrow> int \<Rightarrow> bool" where
  "isFresh details l now =
     (case details l of
        None \<Rightarrow> l \<in> set inheritedMembers \<and> now - 0 < 1000 * 60 * 5
      | Some existing \<Rightarrow> now - fetchedAtOr0 existing < 1000 * 60 * 5)"

definition fetchUserDetails :: "string \<Rightarrow> int \<Rightarrow> state \<Rightarrow> state" where
  "fetchUserDetails l now st =
     (if l = [] then st
      else if isFresh (detailsMap st) l now then st
      else st\<lparr>detailsMap := (detailsMap st)(l \<mapsto> DLoading),
              network := network st @ [DetailFetch l]\<rparr>)"

definition detailOutcome :: "details_obj fetch_result \<Rightarrow> js_error + details_obj" where
  "detailOutcome result =
     (case result of
        Rejected err \<Rightarrow> Inl err
      | Resolved resp \<Rightarrow>
          if \<not> ok resp
          then Inl (Error ''Error'' (''Details fetch failed: '' @ showNat (status resp)))
          else json resp)"

definition orDash :: "int option \<Rightarrow> follow_count" where
  "orDash v = (case v of None \<Rightarrow> Dash | Some n \<Rightarrow> Count n)"

definition orEmpty :: "string option \<Rightarrow> string" where
  "orEmpty v = (case v of None \<Rightarrow> [] | Some s \<Rightarrow> s)"

text \<open>The rest of \<open>fetchUserDetails\<close>, run when the awaited promise settles; \<open>now\<close> is
  the \<open>Date.now()\<close> stored in \<open>fetchedAt\<close>.\<close>

definition fetchUserDetails_settled ::
  "string \<Rightarrow> details_obj fetch_result \<Rightarrow> int \<Rightarrow> state \<Rightarrow> state" where
  "fetchUserDetails_settled l result now st =
     (case detailOutcome result of
        Inr obj \<Rightarrow>
          st\<lparr>detailsMap := (detailsMap st)(l \<mapsto>
               DReady (orDash (followers obj)) (orDash (following obj)) (orEmpty (bio obj))
                 (orEmpty (location obj)) (orEmpty (company obj)) now)\<rparr>
      | Inl err \<Rightarrow>
          flashMessage ''Could not fetch details (rate-limit?)''
            (st\<lparr>detailsMap := (detailsMap st)(l \<mapsto> DError)\<rparr>))"

subsection \<open>Sample data\<close>

text \<open>Users, responses and runs of the component that the concrete statements below
  are evaluated on.\<close>

definition mk_user :: "string \<Rightarrow> int \<Rightarrow> user" where
  "mk_user l i = \<lparr>login = l, id_of = Finite (of_int i), avatar_url = [], html_url = [], repos_url = []\<rparr>"

definition octocat :: user where
  "octocat = mk_user ''octocat'' 583231"

definition torvalds :: user where
  "torvalds = mk_user ''torvalds'' 1024025"

definition mojombo :: user where
  "mojombo = mk_user ''mojombo'' 1"

definition okResponse :: "'a \<Rightarrow> 'a response" where
  "okResponse body = Response True 200 ''OK'' (Inr body)"

definition rateLimited :: "'a response" where
  "rateLimited = Response False 403 ''rate limit exceeded'' (Inl (Error ''SyntaxError'' []))"

definition networkDown :: js_error where
  "networkDown = Error ''TypeError'' ''Failed to fetch''"

definition octocatDetails :: details_obj where
  "octocatDetails =
     \<lparr>followers = Some 9000, following = Some 9, bio = None,
      location = Some ''San Francisco'', company = Some ''@github''\<rparr>"

text \<open>The component after mount, while the first request (controller 0) is in flight.\<close>

definition mounted :: state where
  "mounted = mount (1 / 2) initial"

text \<open>Load More is clicked before the first response arrives: controller 0 is aborted
  and the request of controller 1 is in flight.\<close>

definition superseded :: state where
  "superseded = clickLoadMore (1 / 4) mounted"

text \<open>The first page has arrived: two users are listed and nothing is in flight.\<close>

definition firstPage :: state where
  "firstPage =
     generateProfile_settled False 0 (Resolved (okResponse [octocat, torvalds])) mounted"

text \<open>A detail fetch for octocat has failed at time 500 (milliseconds since the epoch).\<close>

definition detailFailed :: state where
  "detailFailed =
     fetchUserDetails_settled ''octocat'' (Rejected networkDown) 500
       (fetchUserDetails ''octocat'' 0 initial)"

text \<open>Load More has been clicked on the first page: the request of controller 1 is in
  flight.\<close>

definition appending :: state where
  "appending = clickLoadMore (1 / 4) firstPage"

text \<open>The details of octocat have been requested on the first page and have arrived at
  time 1700000000400.\<close>

definition detailReady :: state where
  "detailReady =
     fetchUserDetails_settled ''octocat'' (Resolved (okResponse octocatDetails)) 1700000000400
       (fetchUserDetails ''octocat'' 1700000000000 firstPage)"

section \<open>Facts\<close>

subsection \<open>Strings\<close>

lemma startsWith_prefix: "startsWith s t \<longleftrightarrow> prefix t s"
  by (induction s t rule: startsWith.induct) auto

lemma includes_sublist: "js_includes s t \<longleftrightarrow> sublist t s"
proof (induction s)
  case Nil
  show ?case by simp
next
  case (Cons d s)
  show ?case
    by (simp only: js_includes.simps Cons.IH startsWith_prefix sublist_Cons_right)
qed

lemma includes_empty: "js_includes s []"
  by (cases s) simp_all

lemma toLowerChar_idem: "toLowerChar (toLowerChar c) = toLowerChar c"
proof -
  have "of_char (char_of (n + 32) :: char) = n + 32" if "65 \<le> n" "n \<le> 90" for n :: nat
    using that by simp
  then show ?thesis
    by (auto simp: toLowerChar_def Let_def)
qed

lemma toLowerCase_idem: "toLowerCase (toLowerCase s) = toLowerCase s"
  by (simp add: toLowerCase_def toLowerChar_idem)

lemma debounced_lower: "toLowerCase (debounced raw) = debounced raw"
  by (simp add: debounced_def toLowerCase_idem)

lemma debounced_empty: "debounced [] = []"
  by (simp add: debounced_def trim_def toLowerCase_def)

lemma debouncedSearch_written:
  "debouncedSearch (debounceFired st) = debounced (searchInput st)"
  "debouncedSearch (clickClear st) = debounced []"
  by (simp_all add: debounceFired_def clickClear_def flashMessage_def debounced_empty)

lemma filteredProfiles_sublist:
  "filteredProfiles ps t = filter (\<lambda>p. sublist t (toLowerCase (login p))) ps"
  by (simp add: filteredProfiles_def includes_sublist)

lemma filteredProfiles_subseq: "subseq (filteredProfiles ps t) ps"
  by (simp add: filteredProfiles_def)

lemma filteredProfiles_empty: "filteredProfiles ps [] = ps"
  by (simp add: filteredProfiles_def includes_empty)

lemma filter_to: "filteredProfiles [octocat, torvalds, mojombo] (debounced ''to'') = [octocat, torvalds]"
  by code_simp

lemma filter_TO: "filteredProfiles [octocat, torvalds, mojombo] (debounced '' To '') = [octocat, torvalds]"
  by code_simp

subsection \<open>Evaluating \<open>Number(raw)\<close>\<close>

lemma bitLength_numeral:
  "bitLength 0 = 0"
  "bitLength 1 = 1"
  "bitLength (numeral (Num.Bit0 n)) = 1 + bitLength (numeral n)"
  "bitLength (numeral (Num.Bit1 n)) = 1 + bitLength (numeral n)"
  by (subst bitLength.simps, simp)+

lemma floor_rat_numeral: "\<lfloor>numeral a / numeral b :: rat\<rfloor> = numeral a div numeral b"
  by (metis floor_divide_of_int_eq of_int_numeral)

lemma ceiling_rat_numeral: "\<lceil>numeral a / numeral b :: rat\<rceil> = - (- numeral a div numeral b)"
  by (metis ceiling_def floor_divide_of_int_eq of_int_numeral of_int_minus divide_minus_left)

lemmas parse_defs = stringToNumber_def trim_def isWhiteSpace_def
  nonDecimalInteger_def strDecimalLiteral_def unsignedDecimal_def exponentPart_def
  isDigitOf_def digitValue_def digitsValue_def pow10_def Let_def

lemmas round_defs = roundMagnitude_def roundHalfEven_def pow2_def Let_def
  floor_rat_numeral ceiling_rat_numeral

lemma floorLog2_5: "floorLog2 5 = 2"
  by (simp add: floorLog2_def bitLength_numeral)

lemma floorLog2_3_10: "floorLog2 (3 / 10) = - 2"
  by (simp add: floorLog2_def bitLength_numeral ceiling_rat_numeral)

lemma floorLog2_85_2: "floorLog2 (85 / 2) = 5"
  by (simp add: floorLog2_def bitLength_numeral floor_rat_numeral)

lemma toDouble_minus5: "toDouble (- 5) = Finite (- 5)"
  by (simp add: toDouble_def round_defs floorLog2_5)

lemma toDouble_3_10: "toDouble (3 / 10) = Finite (5404319552844595 / 18014398509481984)"
  by (simp add: toDouble_def round_defs floorLog2_3_10)

lemma toDouble_85_2: "toDouble (85 / 2) = Finite (85 / 2)"
  by (simp add: toDouble_def round_defs floorLog2_85_2)

lemma Number_empty: "stringToNumber [] = Finite 0"
  by (simp add: parse_defs)

lemma Number_blank: "trim raw = [] \<Longrightarrow> stringToNumber raw = Finite 0"
  by (simp add: stringToNumber_def)

lemma Number_abc: "stringToNumber ''abc'' = NaN"
  by (simp add: parse_defs)

lemma Number_zero: "stringToNumber ''0'' = Finite 0"
  by (simp add: parse_defs toDouble_def)

lemma Number_minus5: "stringToNumber ''-5'' = Finite (- 5)"
  by (simp add: parse_defs toDouble_minus5)

lemma Number_0_3: "stringToNumber ''0.3'' = Finite (5404319552844595 / 18014398509481984)"
  by (simp add: parse_defs toDouble_3_10)

lemma Number_minus_Infinity: "stringToNumber ''-Infinity'' = NegInf"
  by (simp add: parse_defs)

lemma Number_42_5: "stringToNumber ''42.5'' = Finite (85 / 2)"
  by (simp add: parse_defs toDouble_85_2)

subsection \<open>The rounding is to a nearest double\<close>

text \<open>\<open>floorLog2 a\<close> is the binary exponent of \<open>a\<close>.\<close>

lemma bitLength_pos: "0 < n \<Longrightarrow> 0 < bitLength n"
proof (induction n rule: bitLength.induct)
  case (1 n)
  show ?case
  proof (cases "n div 2 \<le> 0")
    case True
    then have "bitLength (n div 2) = 0" by (simp add: bitLength.simps)
    with 1 show ?thesis by (subst bitLength.simps) simp
  next
    case False
    with 1 have "0 < bitLength (n div 2)" by simp
    with 1 show ?thesis by (subst bitLength.simps) simp
  qed
qed

lemma bitLength_bounds:
  "0 < n \<Longrightarrow> 2 ^ nat (bitLength n - 1) \<le> n \<and> n < 2 ^ nat (bitLength n)"
proof (induction n rule: bitLength.induct)
  case (1 n)
  have unfold: "bitLength n = 1 + bitLength (n div 2)"
    using 1(2) by (subst bitLength.simps) simp
  show ?case
  proof (cases "n = 1")
    case True
    then show ?thesis by (simp add: bitLength_numeral)
  next
    case False
    with 1(2) have pos: "0 < n div 2" by simp
    define b where "b = bitLength (n div 2)"
    have bpos: "0 < b" unfolding b_def using pos by (rule bitLength_pos)
    from 1(1) 1(2) pos have IH: "2 ^ nat (b - 1) \<le> n div 2" "n div 2 < 2 ^ nat b"
      by (simp_all add: b_def)
    have nb: "nat b = Suc (nat (b - 1))" using bpos by simp
    have "(2::int) ^ nat b = 2 * 2 ^ nat (b - 1)" by (subst nb) simp
    also have "\<dots> \<le> 2 * (n div 2)" using IH(1) by simp
    also have "\<dots> \<le> n" by simp
    finally have lo: "2 ^ nat b \<le> n" .
    have "n < 2 * (n div 2) + 2" by presburger
    also have "\<dots> \<le> 2 * 2 ^ nat b" using IH(2) by simp
    finally have hi: "n < 2 ^ Suc (nat b)" by simp
    have "nat (1 + b) = Suc (nat b)" using bpos by simp
    with lo hi show ?thesis by (simp add: unfold b_def [symmetric])
  qed
qed

lemma pow2_nonneg_exp: "0 \<le> e \<Longrightarrow> pow2 e = 2 ^ nat e"
  by (simp add: pow2_def)

lemma pow2_pos: "0 < pow2 e"
  by (simp add: pow2_def)

lemma pow2_Suc: "pow2 (e + 1) = 2 * pow2 e"
proof (cases "0 \<le> e")
  case True
  then have "nat (e + 1) = Suc (nat e)" by simp
  with True show ?thesis by (simp add: pow2_def)
next
  case False
  then have "nat (- e) = Suc (nat (- (e + 1)))" by simp
  with False show ?thesis by (simp add: pow2_def)
qed

lemma floorLog2_bounds:
  assumes "0 < a"
  shows "pow2 (floorLog2 a) \<le> a \<and> a < pow2 (floorLog2 a + 1)"
proof (cases "1 \<le> a")
  case True
  define n where "n = \<lfloor>a\<rfloor>"
  have npos: "0 < n" using True by (simp add: n_def)
  from bitLength_bounds [OF npos]
  have b: "2 ^ nat (bitLength n - 1) \<le> n" "n < 2 ^ nat (bitLength n)" by simp_all
  have blpos: "0 < bitLength n" using npos by (rule bitLength_pos)
  have e: "floorLog2 a = bitLength n - 1" using True by (simp add: floorLog2_def n_def)
  have "pow2 (bitLength n - 1) = of_int (2 ^ nat (bitLength n - 1))"
    using blpos by (simp add: pow2_def)
  also have "\<dots> \<le> of_int n" using b(1) by (simp only: of_int_le_iff)
  also have "\<dots> \<le> a" by (simp add: n_def)
  finally have lo: "pow2 (floorLog2 a) \<le> a" by (simp add: e)
  have "a < of_int (n + 1)" using floor_correct [of a] by (simp add: n_def)
  also have "\<dots> \<le> of_int (2 ^ nat (bitLength n))" using b(2) by (simp only: of_int_le_iff)
  also have "\<dots> = pow2 (bitLength n)" using blpos by (simp add: pow2_def)
  finally have "a < pow2 (floorLog2 a + 1)" by (simp add: e)
  with lo show ?thesis ..
next
  case False
  define m where "m = \<lceil>1 / a\<rceil>"
  define k where "k = bitLength (m - 1)"
  have inv: "1 < 1 / a" using False assms by simp
  then have m2: "2 \<le> m" unfolding m_def by (simp add: le_ceiling_iff) 
  then have m1: "0 < m - 1" by simp
  from bitLength_bounds [OF m1]
  have b: "2 ^ nat (k - 1) \<le> m - 1" "m - 1 < 2 ^ nat k" by (simp_all add: k_def)
  have kpos: "0 < k" unfolding k_def using m1 by (rule bitLength_pos)
  have e: "floorLog2 a = - k" using False by (simp add: floorLog2_def m_def k_def)
  have "1 / a \<le> of_int m" by (simp add: m_def)
  also have "\<dots> \<le> of_int (2 ^ nat k)" using b(2) by (simp only: of_int_le_iff)
  finally have "1 / a \<le> 2 ^ nat k" by simp
  then have "1 / 2 ^ nat k \<le> a" using assms
    by (simp add: field_simps)
  then have lo: "pow2 (floorLog2 a) \<le> a" using kpos by (simp add: e pow2_def)
  have "(2::rat) ^ nat (k - 1) = of_int (2 ^ nat (k - 1))" by simp
  also have "\<dots> \<le> of_int (m - 1)" using b(1) by (simp only: of_int_le_iff)
  also have "\<dots> < 1 / a" unfolding m_def using ceiling_correct [of "1 / a"] by simp
  finally have "2 ^ nat (k - 1) < 1 / a" .
  then have hi': "a < 1 / 2 ^ nat (k - 1)" using assms
    by (simp add: field_simps)
  have "pow2 (- k + 1) = 1 / 2 ^ nat (k - 1)"
    using kpos by (cases "k = 1") (simp_all add: pow2_def)
  with hi' have "a < pow2 (floorLog2 a + 1)" by (simp add: e)
  with lo show ?thesis ..
qed

lemma roundHalfEven_near: "\<bar>of_int (roundHalfEven x) - x\<bar> \<le> 1 / 2"
proof -
  define f where "f = \<lfloor>x\<rfloor>"
  have fx: "of_int f \<le> x" "x < of_int f + 1"
    using floor_correct [of x] by (simp_all add: f_def)
  have "roundHalfEven x =
          (if x - of_int f < 1 / 2 then f else if 1 / 2 < x - of_int f then f + 1
           else if even f then f else f + 1)"
    by (simp add: roundHalfEven_def Let_def f_def)
  with fx show ?thesis
    by (auto simp: abs_if)
qed

lemma pow2_mono: "e \<le> e' \<Longrightarrow> pow2 e \<le> pow2 e'"
proof (induction "nat (e' - e)" arbitrary: e')
  case 0
  then show ?case by simp
next
  case (Suc n)
  then have "n = nat ((e' - 1) - e)" "e \<le> e' - 1" by simp_all
  then have "pow2 e \<le> pow2 (e' - 1)" by (rule Suc.hyps(1))
  also have "\<dots> \<le> 2 * pow2 (e' - 1)" using pow2_pos [of "e' - 1"] by simp
  also have "\<dots> = pow2 e'" using pow2_Suc [of "e' - 1"] by simp
  finally show ?case .
qed

lemma pow2_add_nat: "pow2 (x + int k) = 2 ^ k * pow2 x"
proof (induction k)
  case 0
  show ?case by simp
next
  case (Suc k)
  have "x + int (Suc k) = (x + int k) + 1" by simp
  then have "pow2 (x + int (Suc k)) = 2 * pow2 (x + int k)"
    by (simp only: pow2_Suc)
  with Suc show ?case by simp
qed

text \<open>The rounded magnitude is a multiple \<open>m * ulp\<close> with at most 53 bits of mantissa,
  at most half an \<open>ulp\<close> away from the exact value.\<close>

lemma roundMagnitude_nearest:
  assumes "0 < a"
  defines "ulp \<equiv> pow2 (max (floorLog2 a) (- 1022) - 52)"
  shows "roundMagnitude a = of_int (roundHalfEven (a / ulp)) * ulp"
    and "\<bar>roundMagnitude a - a\<bar> \<le> ulp / 2"
    and "0 \<le> roundHalfEven (a / ulp)"
    and "roundHalfEven (a / ulp) \<le> 2 ^ 53"
proof -
  define e where "e = max (floorLog2 a) (- 1022)"
  define m where "m = roundHalfEven (a / ulp)"
  have ulp: "ulp = pow2 (e - 52)" "0 < ulp"
    by (simp_all add: ulp_def e_def pow2_pos)
  show rm: "roundMagnitude a = of_int (roundHalfEven (a / ulp)) * ulp"
    by (simp add: roundMagnitude_def Let_def ulp_def)
  have near: "\<bar>of_int m - a / ulp\<bar> \<le> 1 / 2"
    unfolding m_def by (rule roundHalfEven_near)
  have "roundMagnitude a - a = (of_int m - a / ulp) * ulp"
    using ulp(2) by (simp add: rm m_def algebra_simps)
  then have "\<bar>roundMagnitude a - a\<bar> = \<bar>of_int m - a / ulp\<bar> * ulp"
    using ulp(2) by (simp add: abs_mult)
  also have "\<dots> \<le> 1 / 2 * ulp"
    using near ulp(2) by (intro mult_right_mono) simp_all
  finally show "\<bar>roundMagnitude a - a\<bar> \<le> ulp / 2" by simp
  have "0 < a / ulp" using assms(1) ulp(2) by simp
  with near have "- 1 < (of_int m :: rat)" by linarith
  then have "(of_int (- 1) :: rat) < of_int m" by simp
  then have "- 1 < m" by (simp only: of_int_less_iff)
  then show "0 \<le> roundHalfEven (a / ulp)" by (simp add: m_def)
  have "a < pow2 (floorLog2 a + 1)" using floorLog2_bounds [OF assms(1)] by simp
  also have "\<dots> \<le> pow2 (e + 1)" by (rule pow2_mono) (simp add: e_def)
  finally have "a < pow2 (e + 1)" .
  moreover have "pow2 (e + 1) = 2 ^ 53 * ulp"
  proof -
    have "e + 1 = (e - 52) + int 53" by simp
    then have "pow2 (e + 1) = 2 ^ 53 * pow2 (e - 52)"
      by (simp only: pow2_add_nat)
    then show ?thesis by (simp only: ulp(1))
  qed
  ultimately have "a / ulp < 2 ^ 53" using ulp(2) by (simp add: field_simps)
  with near have "of_int m < (2 ^ 53 + 1 :: rat)" by linarith
  then have "of_int m < (of_int (2 ^ 53 + 1) :: rat)" by simp
  then have "m < 2 ^ 53 + 1" by (simp only: of_int_less_iff)
  then show "roundHalfEven (a / ulp) \<le> 2 ^ 53" by (simp add: m_def)
qed

lemma roundHalfEven_of_int: "roundHalfEven (of_int k) = k"
  by (simp add: roundHalfEven_def Let_def)

lemma pow2_neg_exp: "e \<le> 0 \<Longrightarrow> pow2 e = 1 / 2 ^ nat (- e)"
  by (cases "e = 0") (simp_all add: pow2_def)

lemma roundMagnitude_int:
  assumes "0 < n" and "n \<le> 2 ^ 53"
  shows "roundMagnitude (of_int n) = of_int n"
proof -
  define e where "e = floorLog2 (of_int n)"
  have e: "e = bitLength n - 1"
    using assms(1) by (simp add: e_def floorLog2_def)
  have e0: "0 \<le> e"
    using bitLength_pos [OF assms(1)] by (simp add: e)
  from bitLength_bounds [OF assms(1)] have le': "2 ^ nat e \<le> n"
    by (simp add: e)
  with assms(2) have le: "(2::int) ^ nat e \<le> 2 ^ 53"
    by linarith
  have "nat e \<le> 53"
  proof (rule power_le_imp_le_exp)
    show "(1::int) < 2" by simp
    show "(2::int) ^ nat e \<le> 2 ^ 53" by (fact le)
  qed
  then have e53: "e \<le> 53"
    by simp
  have m: "max e (- 1022) = e"
    using e0 by simp
  have rm: "roundMagnitude (of_int n) = of_int (roundHalfEven (of_int n / pow2 (e - 52))) * pow2 (e - 52)"
    by (simp add: roundMagnitude_def Let_def e_def [symmetric] m)
  show ?thesis
  proof (cases "e \<le> 52")
    case True
    then have p: "pow2 (e - 52) = 1 / 2 ^ nat (52 - e)"
      using pow2_neg_exp [of "e - 52"] by simp
    have "of_int n / pow2 (e - 52) = (of_int (n * 2 ^ nat (52 - e)) :: rat)"
      by (simp add: p)
    then have "roundHalfEven (of_int n / pow2 (e - 52)) = n * 2 ^ nat (52 - e)"
      by (simp only: roundHalfEven_of_int)
    then show ?thesis
      by (simp add: rm p)
  next
    case False
    with e53 have e': "e = 53" by simp
    define h :: int where "h = 2 ^ 52"
    from le' assms(2) have n: "n = 2 * h"
      by (simp add: e' h_def)
    have p: "pow2 (e - 52) = 2"
      by (simp add: e' pow2_def)
    have "of_int n / pow2 (e - 52) = (of_int h :: rat)"
      by (simp add: p n)
    then have "roundHalfEven (of_int n / pow2 (e - 52)) = h"
      by (simp only: roundHalfEven_of_int)
    then have "roundMagnitude (of_int n) = of_int h * pow2 (e - 52)"
      by (simp only: rm)
    also have "\<dots> = of_int n"
      by (simp add: p n)
    finally show ?thesis .
  qed
qed

text \<open>An integer of at most 53 bits is a double; \<open>2 ^ 53 + 1\<close> is not.\<close>

lemma toDouble_int:
  assumes "\<bar>k\<bar> \<le> 2 ^ 53"
  shows "toDouble (of_int k) = Finite (of_int k)"
proof (cases "k = 0")
  case True
  then show ?thesis by (simp add: toDouble_def)
next
  case False
  then have pos: "0 < \<bar>k\<bar>" by simp
  have "\<bar>of_int k :: rat\<bar> = of_int \<bar>k\<bar>" by simp
  then have r: "roundMagnitude \<bar>of_int k :: rat\<bar> = of_int \<bar>k\<bar>"
    using roundMagnitude_int [OF pos assms] by simp
  have "(of_int \<bar>k\<bar> :: rat) \<le> of_int (2 ^ 53)"
    using assms by (simp only: of_int_le_iff)
  also have "\<dots> < pow2 1024"
    by (simp add: pow2_def)
  finally have "\<not> pow2 1024 \<le> (of_int \<bar>k\<bar> :: rat)" by simp
  with False r show ?thesis
    by (auto simp: toDouble_def Let_def abs_if split: if_splits)
qed

lemma toDouble_numeral:
  "numeral n \<le> (9007199254740992 :: int) \<Longrightarrow> toDouble (numeral n) = Finite (numeral n)"
  using toDouble_int [of "numeral n"] by simp

lemma toDouble_2_53_plus_1: "toDouble 9007199254740993 = Finite 9007199254740992"
proof -
  have "floorLog2 9007199254740993 = 53"
    by (simp add: floorLog2_def bitLength_numeral)
  then show ?thesis
    by (simp add: toDouble_def round_defs)
qed

text \<open>\<open>since\<close> is computed in doubles: for this value of \<open>Math.random()\<close> the
  product rounds up to 373 and \<open>since\<close> is 374, where exact arithmetic gives 373.\<close>

lemma random_product_rounds:
  "jsMul (Finite (335968532201839 / 2 ^ 53)) (Finite 10000) = Finite 373"
proof -
  have "floorLog2 (335968532201839 / 2 ^ 53 * 10000) = 8"
    by (simp add: floorLog2_def bitLength_numeral floor_rat_numeral)
  then show ?thesis
    by (simp add: toDouble_def round_defs)
qed

lemma since_in_doubles:
  "mathFloor (jsAdd (Finite 1) (jsMul (Finite (335968532201839 / 2 ^ 53)) (Finite 10000)))
   = Finite 374"
proof -
  have "mathFloor (jsAdd (Finite 1) (jsMul (Finite (335968532201839 / 2 ^ 53)) (Finite 10000)))
        = mathFloor (jsAdd (Finite 1) (Finite 373))"
    by (simp only: random_product_rounds)
  also have "\<dots> = Finite 374"
    by (simp add: toDouble_numeral)
  finally show ?thesis .
qed

lemma since_exact_differs: "\<lfloor>1 + 335968532201839 / 2 ^ 53 * (10000 :: rat)\<rfloor> = 373"
  by (simp add: floor_rat_numeral)

subsection \<open>The count normalizer, by the kind of number\<close>

lemma safeCount_NaN: "toNumber raw = NaN \<Longrightarrow> safeCount raw = Finite 10"
  by (simp add: safeCount_def falsy_def isNaN_def DEFAULT_COUNT_def)

lemma safeCount_PosInf: "toNumber raw = PosInf \<Longrightarrow> safeCount raw = Finite 100"
  by (simp add: safeCount_def falsy_def isNaN_def)

lemma safeCount_NegInf: "toNumber raw = NegInf \<Longrightarrow> safeCount raw = Finite 1"
  by (simp add: safeCount_def falsy_def isNaN_def)

lemma safeCount_Finite:
  "toNumber raw = Finite q \<Longrightarrow>
   safeCount raw =
     (if q = 0 then Finite 10 else if q < 1 then Finite 1 else if 100 < q then Finite 100
      else Finite (of_int \<lfloor>q\<rfloor>))"
  by (simp add: safeCount_def falsy_def isNaN_def DEFAULT_COUNT_def)

lemma safeCount_range: "\<exists>k. safeCount raw = Finite (of_int k) \<and> 1 \<le> k \<and> k \<le> 100"
proof (cases "toNumber raw")
  case (Finite q)
  note sc = safeCount_Finite [OF Finite]
  consider "q = 0" | "q \<noteq> 0" "q < 1" | "100 < q" | "1 \<le> q" "q \<le> 100"
    by linarith
  then show ?thesis
  proof cases
    case 1
    with sc have "safeCount raw = Finite (of_int 10)" by simp
    then show ?thesis by (intro exI[of _ 10]) simp
  next
    case 2
    with sc have "safeCount raw = Finite (of_int 1)" by simp
    then show ?thesis by (intro exI[of _ 1]) simp
  next
    case 3
    with sc have "safeCount raw = Finite (of_int 100)" by simp
    then show ?thesis by (intro exI[of _ 100]) simp
  next
    case 4
    with sc have "safeCount raw = Finite (of_int \<lfloor>q\<rfloor>)" by simp
    moreover from 4 have "1 \<le> \<lfloor>q\<rfloor>" "\<lfloor>q\<rfloor> \<le> 100"
      by (simp_all add: le_floor_iff floor_le_iff)
    ultimately show ?thesis by blast
  qed
next
  case NaN
  then have "safeCount raw = Finite (of_int 10)" by (simp add: safeCount_NaN)
  then show ?thesis by (intro exI[of _ 10]) simp
next
  case PosInf
  then have "safeCount raw = Finite (of_int 100)" by (simp add: safeCount_PosInf)
  then show ?thesis by (intro exI[of _ 100]) simp
next
  case NegInf
  then have "safeCount raw = Finite (of_int 1)" by (simp add: safeCount_NegInf)
  then show ?thesis by (intro exI[of _ 1]) simp
qed

lemma safeCount_idem: "safeCount (JNumber (safeCount raw)) = safeCount raw"
proof -
  obtain k where k: "safeCount raw = Finite (of_int k)" "1 \<le> k" "k \<le> 100"
    using safeCount_range by blast
  have "toNumber (JNumber (Finite (of_int k))) = Finite (of_int k)"
    by (simp add: toNumber_def)
  from safeCount_Finite [OF this] k show ?thesis by simp
qed

lemma safeCount_default: "safeCount (JNumber DEFAULT_COUNT) = Finite 10"
  by (simp add: safeCount_def toNumber_def falsy_def isNaN_def DEFAULT_COUNT_def)

lemma safeCount_10: "safeCount (JNumber (Finite 10)) = Finite 10"
  by (simp add: safeCount_def toNumber_def falsy_def isNaN_def)

subsection \<open>The list fetcher, by the outcome of the request\<close>

lemma showNat_nonempty: "showNat n \<noteq> []"
  by (subst showNat.simps) simp

lemma showNat_403: "showNat 403 = ''403''"
  by code_simp

lemma settled_aborted:
  "controller \<in> set (aborted st) \<Longrightarrow>
   generateProfile_settled append' controller result st =
     st\<lparr>loading := False, loadingMore := False, abortRef := None\<rparr>"
  by (simp add: generateProfile_settled_def listOutcome_def AbortError_def)

lemma settled_ok:
  "controller \<notin> set (aborted st) \<Longrightarrow> ok res \<Longrightarrow> json res = Inr data \<Longrightarrow>
   generateProfile_settled append' controller (Resolved res) st =
     st\<lparr>sinceCursor := (if data = [] then sinceCursor st
                         else Some (jsAdd (id_of (last data)) (Finite 1))),
        profile := (if append' then profile st @ data else data),
        message := (if append' then ''Appended '' else ''Loaded '')
                     @ showNat (length data) @ '' profiles'',
        loading := False, loadingMore := False, abortRef := None\<rparr>"
  by (simp add: generateProfile_settled_def listOutcome_def flashMessage_def Let_def)

lemma settled_http:
  "controller \<notin> set (aborted st) \<Longrightarrow> \<not> ok res \<Longrightarrow>
   generateProfile_settled append' controller (Resolved res) st =
     st\<lparr>error := ''GitHub API error: '' @ showNat (status res) @ '' '' @ statusText res,
        profile := (if append' then profile st else []),
        loading := False, loadingMore := False, abortRef := None\<rparr>"
  by (simp add: generateProfile_settled_def listOutcome_def)

lemma settled_rejected:
  "controller \<notin> set (aborted st) \<Longrightarrow> err_name err \<noteq> ''AbortError'' \<Longrightarrow>
   generateProfile_settled append' controller (Rejected err) st =
     st\<lparr>error := (if err_message err = [] then ''Failed to load profiles.''
                  else err_message err),
        profile := (if append' then profile st else []),
        loading := False, loadingMore := False, abortRef := None\<rparr>"
  by (simp add: generateProfile_settled_def listOutcome_def)

text \<open>Starting a list fetch aborts the controller the ref holds and no other.\<close>

lemma generateProfile_aborts:
  "aborted (generateProfile countPages append' random st) =
     (case abortRef st of None \<Rightarrow> aborted st | Some c \<Rightarrow> c # aborted st)"
  by (simp add: generateProfile_def Let_def split: option.splits)

lemma generateProfile_keeps:
  "profile (generateProfile countPages append' random st) = profile st"
  "controllers (generateProfile countPages append' random st) = Suc (controllers st)"
  "abortRef (generateProfile countPages append' random st) = Some (controllers st)"
  by (simp_all add: generateProfile_def Let_def split: option.splits)

lemma generateProfile_network:
  "\<exists>since. network (generateProfile countPages append' random st) =
     network st @ [ListFetch since (safeCount countPages) (controllers st)]"
  by (simp add: generateProfile_def Let_def split: option.splits)

subsection \<open>The sample runs\<close>

lemma mounted_eval:
  "mounted = initial\<lparr>loading := True, abortRef := Some 0, controllers := 1,
     network := [ListFetch (Finite 5001) (Finite 10) 0]\<rparr>"
  by (simp add: mounted_def mount_def generateProfile_def initial_def safeCount_default
      toDouble_numeral)

lemma superseded_eval:
  "superseded = initial\<lparr>loading := True, loadingMore := True, abortRef := Some 1,
     aborted := [0], controllers := 2,
     network := [ListFetch (Finite 5001) (Finite 10) 0, ListFetch (Finite 2501) (Finite 10) 1]\<rparr>"
  by (simp add: superseded_def clickLoadMore_def countInput_def mounted_eval generateProfile_def
      initial_def safeCount_default safeCount_10 toDouble_numeral)

lemma firstPage_fields:
  "profile firstPage = [octocat, torvalds]"
  "sinceCursor firstPage = Some (Finite 1024026)"
  "error firstPage = []"
  "aborted firstPage = []"
  "abortRef firstPage = None"
  "controllers firstPage = 1"
  "loading firstPage = False"
  "loadingMore firstPage = False"
  "detailsMap firstPage = Map.empty"
  by (simp_all add: firstPage_def mounted_eval initial_def generateProfile_settled_def
      listOutcome_def okResponse_def flashMessage_def torvalds_def mk_user_def toDouble_numeral)

subsection \<open>The detail fetcher, by the outcome of the request\<close>

lemma details_failed:
  "detailOutcome result = Inl err \<Longrightarrow>
   fetchUserDetails_settled l result now st =
     st\<lparr>detailsMap := (detailsMap st)(l \<mapsto> DError),
        message := ''Could not fetch details (rate-limit?)''\<rparr>"
  by (simp add: fetchUserDetails_settled_def flashMessage_def)

lemma details_ok:
  "ok resp \<Longrightarrow> json resp = Inr obj \<Longrightarrow>
   fetchUserDetails_settled l (Resolved resp) now st =
     st\<lparr>detailsMap := (detailsMap st)(l \<mapsto>
          DReady (orDash (followers obj)) (orDash (following obj)) (orEmpty (bio obj))
            (orEmpty (location obj)) (orEmpty (company obj)) now)\<rparr>"
  by (simp add: fetchUserDetails_settled_def detailOutcome_def)

lemma detailOutcome_failure:
  "(\<exists>err. result = Rejected err)
   \<or> (\<exists>resp. result = Resolved resp \<and> (\<not> ok resp \<or> (\<exists>err. json resp = Inl err)))
   \<Longrightarrow> \<exists>err. detailOutcome result = Inl err"
  by (auto simp: detailOutcome_def)

lemma fetchUserDetails_issues:
  "l \<noteq> [] \<Longrightarrow> \<not> isFresh (detailsMap st) l now \<Longrightarrow>
   fetchUserDetails l now st =
     st\<lparr>detailsMap := (detailsMap st)(l \<mapsto> DLoading), network := network st @ [DetailFetch l]\<rparr>"
  by (simp add: fetchUserDetails_def)

lemma fetchUserDetails_fresh:
  "isFresh (detailsMap st) l now \<Longrightarrow> fetchUserDetails l now st = st"
  by (simp add: fetchUserDetails_def)

text \<open>A login without an entry that names an inherited member is taken for fresh
  while the clock is less than 5 minutes past the epoch, and fetched afterwards.\<close>

lemma inherited_member_fresh_near_epoch:
  "fetchUserDetails ''constructor'' 1000 initial = initial"
  "network (fetchUserDetails ''constructor'' 1700000000000 initial) = [DetailFetch ''constructor'']"
  by (simp_all add: fetchUserDetails_def isFresh_def inheritedMembers_def initial_def)

lemma detailFailed_eval:
  "detailFailed = initial\<lparr>detailsMap := [''octocat'' \<mapsto> DError],
     message := ''Could not fetch details (rate-limit?)'',
     network := [DetailFetch ''octocat'']\<rparr>"
  by (simp add: detailFailed_def fetchUserDetails_def isFresh_def inheritedMembers_def initial_def
      fetchUserDetails_settled_def detailOutcome_def flashMessage_def)

lemma appending_fields:
  "profile appending = [octocat, torvalds]"
  "sinceCursor appending = Some (Finite 1024026)"
  "aborted appending = []"
  "abortRef appending = Some 1"
  "loadingMore appending = True"
  by (simp_all add: appending_def clickLoadMore_def firstPage_fields generateProfile_def Let_def)

lemma detailReady_fields:
  "profile detailReady = [octocat, torvalds]"
  "sinceCursor detailReady = Some (Finite 1024026)"
  "error detailReady = []"
  "network detailReady = network firstPage @ [DetailFetch ''octocat'']"
  "detailsMap detailReady =
     [''octocat'' \<mapsto> DReady (Count 9000) (Count 9) [] ''San Francisco'' ''@github'' 1700000000400]"
  by (simp_all add: detailReady_def fetchUserDetails_def isFresh_def inheritedMembers_def
      firstPage_fields
      fetchUserDetails_settled_def detailOutcome_def okResponse_def octocatDetails_def
      orDash_def orEmpty_def)

section \<open>The claims\<close>

subsection \<open>C1: a superseded list request\<close>

text \<open>
  A request whose controller has been aborted never applies its response: whatever the
  server answered, the list, the error string, the cursor, the details and the request
  log stay as they are. It does run the \<open>finally\<close> block, which lowers both loading
  flags and empties the ref.
\<close>

lemma superseded_request_frame:
  assumes "controller \<in> set (aborted st)"
  shows "profile (generateProfile_settled append' controller result st) = profile st"
    and "error (generateProfile_settled append' controller result st) = error st"
    and "sinceCursor (generateProfile_settled append' controller result st) = sinceCursor st"
    and "detailsMap (generateProfile_settled append' controller result st) = detailsMap st"
    and "loading (generateProfile_settled append' controller result st) = False"
    and "loadingMore (generateProfile_settled append' controller result st) = False"
    and "abortRef (generateProfile_settled append' controller result st) = None"
  using assms by (simp_all add: settled_aborted)

text \<open>
  C1. When a second list fetch starts while the first is in flight, only the later
  response is applied, and the superseded request changes nothing after its
  cancellation: not the list, not the loading flags, not the error string, not the abort
  handle. On the code the last part fails. After mount, Load More is clicked before the
  first response arrives: controller 0 is aborted, both loading flags are up and the
  ref holds controller 1. When the aborted call is resumed, whatever the result, it
  leaves the list and the error string alone but lowers both loading flags and empties
  the ref, while the request of controller 1 is still in flight.
\<close>

theorem C1_superseded_request_resets_flags_and_ref:
  "0 \<in> set (aborted superseded)
   \<and> loading superseded \<and> loadingMore superseded \<and> abortRef superseded = Some 1
   \<and> profile (generateProfile_settled False 0 result superseded) = profile superseded
   \<and> error (generateProfile_settled False 0 result superseded) = error superseded
   \<and> \<not> loading (generateProfile_settled False 0 result superseded)
   \<and> \<not> loadingMore (generateProfile_settled False 0 result superseded)
   \<and> abortRef (generateProfile_settled False 0 result superseded) = None
   \<and> network (generateProfile_settled False 0 result superseded)
       = [ListFetch (Finite 5001) (Finite 10) 0, ListFetch (Finite 2501) (Finite 10) 1]"
  by (simp add: settled_aborted superseded_eval initial_def)

text \<open>
  What follows from the emptied ref: the next fetch finds no controller to abort, two
  requests are in flight together, and the response of the older one is applied after
  the response of the newer one. Here Load is clicked after the aborted call of C1 was
  resumed; its response (mojombo) arrives first, then the response of the Load More
  request (octocat) is appended to it.
\<close>

lemma stale_response_applied:
  "profile
     (generateProfile_settled True 1 (Resolved (okResponse [octocat]))
       (generateProfile_settled False 2 (Resolved (okResponse [mojombo]))
         (clickLoad (3 / 4)
           (generateProfile_settled False 0 (Rejected AbortError) superseded))))
   = [mojombo, octocat]"
proof -
  define s3 where "s3 = generateProfile_settled False 0 (Rejected AbortError) superseded"
  define s4 where "s4 = clickLoad (3 / 4) s3"
  define s5 where "s5 = generateProfile_settled False 2 (Resolved (okResponse [mojombo])) s4"
  have s3: "s3 = superseded\<lparr>loading := False, loadingMore := False, abortRef := None\<rparr>"
    unfolding s3_def by (rule settled_aborted) (simp add: superseded_eval)
  have s4: "s4 = generateProfile (JNumber (safeCount (countInput s3))) False (3 / 4) s3"
    by (simp add: s4_def clickLoad_def s3)
  have a4: "aborted s4 = [0]"
    by (simp add: s4 generateProfile_aborts) (simp add: s3 superseded_eval)
  have "2 \<notin> set (aborted s4)"
    by (simp add: a4)
  from settled_ok [OF this, of "okResponse [mojombo]" "[mojombo]" False]
  have s5: "profile s5 = [mojombo]" "aborted s5 = [0]"
    by (simp_all add: s5_def okResponse_def a4)
  then have "1 \<notin> set (aborted s5)"
    by simp
  from settled_ok [OF this, of "okResponse [octocat]" "[octocat]" True]
  have "profile (generateProfile_settled True 1 (Resolved (okResponse [octocat])) s5)
        = [mojombo, octocat]"
    by (simp add: okResponse_def s5)
  then show ?thesis
    by (simp add: s5_def s4_def s3_def)
qed

subsection \<open>C2: the derived filter\<close>

text \<open>
  C2, as the claim has it: for the logins octocat, torvalds, mojombo and the search
  term \<open>to\<close> the result is exactly torvalds. It is not: \<open>octocat\<close> contains \<open>to\<close>
  (oc-to-cat), so the filter keeps it.
\<close>

theorem C2_filter_to_is_not_torvalds_alone:
  "filteredProfiles [octocat, torvalds, mojombo] (debounced ''to'') \<noteq> [torvalds]"
  using filter_to by simp

text \<open>
  C2, amended. Given the working list and the debounced search term (the trimmed,
  lower-cased search text), the filter returns the users whose login contains the term as
  a substring, case ignored, in the order of the list (a subsequence of it); the empty
  search text returns the whole list. For the logins octocat, torvalds, mojombo
  and the search text \<open>to\<close> the result is octocat and torvalds, in this order, and for
  the empty search text it is all three.
\<close>

theorem C2_filter_case_insensitive_substring:
  "filteredProfiles ps (debounced raw)
     = filter (\<lambda>p. sublist (toLowerCase (debounced raw)) (toLowerCase (login p))) ps
   \<and> filteredProfiles ps (debounced raw)
     = filter (\<lambda>p. sublist (toLowerCase (trim raw)) (toLowerCase (login p))) ps
   \<and> subseq (filteredProfiles ps (debounced raw)) ps
   \<and> filteredProfiles ps (debounced []) = ps
   \<and> filteredProfiles [octocat, torvalds, mojombo] (debounced ''to'') = [octocat, torvalds]
   \<and> filteredProfiles [octocat, torvalds, mojombo] (debounced [])
       = [octocat, torvalds, mojombo]"
proof -
  have "filteredProfiles ps (debounced raw)
        = filter (\<lambda>p. sublist (toLowerCase (trim raw)) (toLowerCase (login p))) ps"
    by (simp add: filteredProfiles_sublist debounced_def)
  moreover have "filteredProfiles ps (debounced raw)
        = filter (\<lambda>p. sublist (toLowerCase (debounced raw)) (toLowerCase (login p))) ps"
    by (simp add: filteredProfiles_sublist debounced_lower)
  moreover have "filteredProfiles qs (debounced []) = qs" for qs
    by (simp add: debounced_empty filteredProfiles_empty)
  ultimately show ?thesis
    by (simp add: filteredProfiles_subseq filter_to)
qed

subsection \<open>C3 and C9: the count normalizer\<close>

text \<open>
  C3. \<open>safeCount\<close> has a value for every string (it has no path that throws) and the
  value is an integer from 1 to 100. An input that is not numeric (\<open>Number\<close> gives NaN),
  that is empty or blank, or that is zero gives the default 10, and a number from 1 to
  100 is floored.
\<close>

theorem C3_safeCount_range_default_floor:
  "(\<exists>k. safeCount (JString raw) = Finite (of_int k) \<and> 1 \<le> k \<and> k \<le> 100)
   \<and> (toNumber (JString raw) = NaN \<longrightarrow> safeCount (JString raw) = Finite 10)
   \<and> (trim raw = [] \<longrightarrow> safeCount (JString raw) = Finite 10)
   \<and> (toNumber (JString raw) = Finite 0 \<longrightarrow> safeCount (JString raw) = Finite 10)
   \<and> (toNumber (JString raw) = Finite q \<and> 1 \<le> q \<and> q \<le> 100
        \<longrightarrow> safeCount (JString raw) = Finite (of_int \<lfloor>q\<rfloor>))"
proof -
  have blank: "safeCount (JString raw) = Finite 10" if "trim raw = []"
  proof -
    from that have "toNumber (JString raw) = Finite 0"
      by (simp add: toNumber_def Number_blank)
    from safeCount_Finite [OF this] show ?thesis by simp
  qed
  have zero: "safeCount (JString raw) = Finite 10" if "toNumber (JString raw) = Finite 0"
    using safeCount_Finite [OF that] by simp
  have floored: "safeCount (JString raw) = Finite (of_int \<lfloor>q\<rfloor>)"
    if "toNumber (JString raw) = Finite q" "1 \<le> q" "q \<le> 100"
    using safeCount_Finite [OF that(1)] that(2,3) by simp
  show ?thesis
    using safeCount_range [of "JString raw"] blank zero floored
    by (simp add: safeCount_NaN)
qed

theorem C3_safeCount_witness:
  "safeCount (JString ''abc'') = Finite 10
   \<and> safeCount (JString []) = Finite 10
   \<and> safeCount (JString ''0'') = Finite 10
   \<and> safeCount (JString ''42.5'') = Finite 42"
proof -
  have "toNumber (JString ''abc'') = NaN"
    by (simp add: toNumber_def Number_abc)
  with C3_safeCount_range_default_floor [of "''abc''"]
  have 1: "safeCount (JString ''abc'') = Finite 10" by blast
  have "trim [] = []"
    by (simp add: trim_def)
  with C3_safeCount_range_default_floor [of "[]"]
  have 2: "safeCount (JString []) = Finite 10" by blast
  have "toNumber (JString ''0'') = Finite 0"
    by (simp add: toNumber_def Number_zero)
  with C3_safeCount_range_default_floor [of "''0''"]
  have 3: "safeCount (JString ''0'') = Finite 10" by blast
  have "toNumber (JString ''42.5'') = Finite (85 / 2) \<and> 1 \<le> (85 / 2 :: rat) \<and> (85 / 2 :: rat) \<le> 100"
    by (simp add: toNumber_def Number_42_5)
  with C3_safeCount_range_default_floor [of "''42.5''" "85 / 2"]
  have "safeCount (JString ''42.5'') = Finite (of_int \<lfloor>85 / 2 :: rat\<rfloor>)" by blast
  then have 4: "safeCount (JString ''42.5'') = Finite 42"
    by (simp add: floor_rat_numeral)
  from 1 2 3 4 show ?thesis by blast
qed

text \<open>
  C9. A string that parses to a number below 1 other than zero (\<open>-5\<close>, \<open>0.3\<close>, minus
  infinity) gives 1, the lower clamp, and not the default. The default branch
  \<open>!n || isNaN(n)\<close> is taken exactly when the number is zero or NaN, and among the
  inputs that are NaN or below 1 the result is 10 exactly for these.
\<close>

theorem C9_safeCount_below_one_is_clamped:
  "(toNumber (JString raw) = Finite q \<and> q \<noteq> 0 \<and> q < 1
        \<longrightarrow> safeCount (JString raw) = Finite 1)
   \<and> (toNumber (JString raw) = NegInf \<longrightarrow> safeCount (JString raw) = Finite 1)
   \<and> ((falsy (toNumber (JString raw)) \<or> isNaN (toNumber (JString raw)))
        = (toNumber (JString raw) = Finite 0 \<or> toNumber (JString raw) = NaN))
   \<and> (js_less (toNumber (JString raw)) (Finite 1) \<or> toNumber (JString raw) = NaN
        \<longrightarrow> (safeCount (JString raw) = Finite 10)
             = (toNumber (JString raw) = Finite 0 \<or> toNumber (JString raw) = NaN))"
proof (cases "toNumber (JString raw)")
  case (Finite r)
  from safeCount_Finite [OF this] Finite show ?thesis
    by (auto simp: falsy_def isNaN_def)
qed (simp_all add: safeCount_NaN safeCount_NegInf safeCount_PosInf falsy_def isNaN_def)

theorem C9_safeCount_witness:
  "safeCount (JString ''-5'') = Finite 1
   \<and> safeCount (JString ''0.3'') = Finite 1
   \<and> safeCount (JString ''-Infinity'') = Finite 1
   \<and> safeCount (JString ''0.3'') \<noteq> Finite 10
   \<and> safeCount (JString ''abc'') = Finite 10"
proof -
  have "toNumber (JString ''-5'') = Finite (- 5) \<and> (- 5 :: rat) \<noteq> 0 \<and> (- 5 :: rat) < 1"
    by (simp add: toNumber_def Number_minus5)
  with C9_safeCount_below_one_is_clamped [of "''-5''" "- 5"]
  have 1: "safeCount (JString ''-5'') = Finite 1" by blast
  have n: "toNumber (JString ''0.3'') = Finite (5404319552844595 / 18014398509481984)"
    by (simp add: toNumber_def Number_0_3)
  then have "toNumber (JString ''0.3'') = Finite (5404319552844595 / 18014398509481984)
        \<and> (5404319552844595 / 18014398509481984 :: rat) \<noteq> 0
        \<and> (5404319552844595 / 18014398509481984 :: rat) < 1"
    by simp
  with C9_safeCount_below_one_is_clamped [of "''0.3''" "5404319552844595 / 18014398509481984"]
  have 2: "safeCount (JString ''0.3'') = Finite 1" by blast
  have "toNumber (JString ''-Infinity'') = NegInf"
    by (simp add: toNumber_def Number_minus_Infinity)
  with C9_safeCount_below_one_is_clamped [of "''-Infinity''"]
  have 3: "safeCount (JString ''-Infinity'') = Finite 1" by blast
  have "js_less (toNumber (JString ''0.3'')) (Finite 1)"
       "toNumber (JString ''0.3'') \<noteq> Finite 0" "toNumber (JString ''0.3'') \<noteq> NaN"
    by (simp_all add: n)
  with C9_safeCount_below_one_is_clamped [of "''0.3''"]
  have 4: "safeCount (JString ''0.3'') \<noteq> Finite 10" by blast
  have "toNumber (JString ''abc'') = NaN"
    by (simp add: toNumber_def Number_abc)
  with C9_safeCount_below_one_is_clamped [of "''abc''"]
  have 5: "safeCount (JString ''abc'') = Finite 10" by blast
  from 1 2 3 4 5 show ?thesis by blast
qed

subsection \<open>C4, C5 and C8: the response of a list fetch\<close>

text \<open>
  C4. When a list fetch that was not cancelled fails, with a status outside 2xx or
  with a network error, an error message is recorded; a failed replace load empties the
  working list and a failed append load leaves it as it was.
\<close>

theorem C4_failed_list_fetch:
  assumes "controller \<notin> set (aborted st)"
    and "(\<exists>res. result = Resolved res \<and> \<not> ok res)
         \<or> (\<exists>err. result = Rejected err \<and> err_name err \<noteq> ''AbortError'')"
  shows "error (generateProfile_settled append' controller result st) \<noteq> []
       \<and> error (generateProfile_settled append' controller result st)
           = (case result of
                Resolved res \<Rightarrow>
                  ''GitHub API error: '' @ showNat (status res) @ '' '' @ statusText res
              | Rejected err \<Rightarrow>
                  if err_message err = [] then ''Failed to load profiles.''
                  else err_message err)
       \<and> profile (generateProfile_settled False controller result st) = []
       \<and> profile (generateProfile_settled True controller result st) = profile st"
  using assms by (auto simp: settled_http settled_rejected split: if_splits)

theorem C4_failed_list_fetch_witness:
  "error (generateProfile_settled True 1 (Resolved rateLimited) appending)
     = ''GitHub API error: 403 rate limit exceeded''
   \<and> profile (generateProfile_settled True 1 (Resolved rateLimited) appending)
       = [octocat, torvalds]
   \<and> error (generateProfile_settled False 1 (Rejected networkDown) appending)
       = ''Failed to fetch''
   \<and> profile (generateProfile_settled False 1 (Rejected networkDown) appending) = []"
proof -
  have a: "1 \<notin> set (aborted appending)"
    by (simp add: appending_fields)
  have "(\<exists>res. Resolved rateLimited = Resolved res \<and> \<not> ok (res :: user list response))
         \<or> (\<exists>err. (Resolved rateLimited :: user list fetch_result) = Rejected err
                 \<and> err_name err \<noteq> ''AbortError'')"
    by (simp add: rateLimited_def)
  from C4_failed_list_fetch [OF a this, of True]
  have 1: "error (generateProfile_settled True 1 (Resolved rateLimited) appending)
             = ''GitHub API error: 403 rate limit exceeded''
           \<and> profile (generateProfile_settled True 1 (Resolved rateLimited) appending)
             = [octocat, torvalds]"
    by (simp add: appending_fields rateLimited_def showNat_403)
  have "(\<exists>res. (Rejected networkDown :: user list fetch_result) = Resolved res \<and> \<not> ok res)
         \<or> (\<exists>err. (Rejected networkDown :: user list fetch_result) = Rejected err
                 \<and> err_name err \<noteq> ''AbortError'')"
    by (simp add: networkDown_def)
  from C4_failed_list_fetch [OF a this, of False]
  have 2: "error (generateProfile_settled False 1 (Rejected networkDown) appending)
             = ''Failed to fetch''
           \<and> profile (generateProfile_settled False 1 (Rejected networkDown) appending) = []"
    by (simp add: networkDown_def)
  from 1 2 show ?thesis by blast
qed

text \<open>
  C5. When an append load succeeds with a response of M items on a working list of N
  items, the new list has N + M items: the N old ones, unchanged and in their order,
  followed by the M new ones in the order of the response.
\<close>

theorem C5_append_keeps_prefix:
  assumes "controller \<notin> set (aborted st)" and "ok res" and "json res = Inr data"
  shows "profile (generateProfile_settled True controller (Resolved res) st) = profile st @ data
       \<and> length (profile (generateProfile_settled True controller (Resolved res) st))
           = length (profile st) + length data
       \<and> take (length (profile st))
             (profile (generateProfile_settled True controller (Resolved res) st))
           = profile st
       \<and> drop (length (profile st))
             (profile (generateProfile_settled True controller (Resolved res) st))
           = data"
  using assms by (simp add: settled_ok)

theorem C5_append_keeps_prefix_witness:
  "profile (generateProfile_settled True 1 (Resolved (okResponse [mojombo])) appending)
     = [octocat, torvalds, mojombo]
   \<and> length (profile (generateProfile_settled True 1 (Resolved (okResponse [mojombo])) appending))
     = 3"
proof -
  have "1 \<notin> set (aborted appending)"
    by (simp add: appending_fields)
  moreover have "ok (okResponse [mojombo])" "json (okResponse [mojombo]) = Inr [mojombo]"
    by (simp_all add: okResponse_def)
  ultimately show ?thesis
    using C5_append_keeps_prefix [of 1 appending "okResponse [mojombo]" "[mojombo]"]
    by (simp add: appending_fields)
qed

text \<open>
  C8, as the claim has it: after a successful list fetch with a response that is not
  empty the cursor is the id of the last element plus 1. The code adds in doubles
  (\<open>lastId + 1\<close>), and from \<open>2 ^ 53\<close> on the sum is rounded: for a last element
  with id 9007199254740992 the cursor is 9007199254740992, not 9007199254740993.
\<close>

theorem C8_cursor_is_rounded_at_2_53:
  "id_of (last [mk_user ''hubot'' 9007199254740992]) = Finite 9007199254740992
   \<and> sinceCursor (generateProfile_settled True 1
         (Resolved (okResponse [mk_user ''hubot'' 9007199254740992])) appending)
       = Some (Finite 9007199254740992)
   \<and> sinceCursor (generateProfile_settled True 1
         (Resolved (okResponse [mk_user ''hubot'' 9007199254740992])) appending)
       \<noteq> Some (Finite (9007199254740992 + 1))"
proof -
  have "1 \<notin> set (aborted appending)"
    by (simp add: appending_fields)
  from settled_ok [OF this, of "okResponse [mk_user ''hubot'' 9007199254740992]"
      "[mk_user ''hubot'' 9007199254740992]" True]
  show ?thesis
    by (simp add: okResponse_def mk_user_def toDouble_2_53_plus_1)
qed

text \<open>
  C8, amended. A successful list fetch with a response that is not empty sets the
  cursor to the id of the last element plus 1, added as JavaScript adds numbers, in
  doubles; when the id is an integer \<open>k\<close> with \<open>\<bar>k + 1\<bar> \<le> 2 ^ 53\<close>, as every id
  from 0 to \<open>2 ^ 53 - 1\<close> is, the cursor is exactly \<open>k + 1\<close>. With an empty response
  the cursor stays as it was.
\<close>

theorem C8_cursor_after_success:
  assumes "controller \<notin> set (aborted st)" and "ok res" and "json res = Inr data"
  shows "(data = [] \<longrightarrow>
            sinceCursor (generateProfile_settled append' controller (Resolved res) st)
              = sinceCursor st)
       \<and> (data \<noteq> [] \<longrightarrow>
            sinceCursor (generateProfile_settled append' controller (Resolved res) st)
              = Some (jsAdd (id_of (last data)) (Finite 1)))
       \<and> (data \<noteq> [] \<and> id_of (last data) = Finite (of_int k) \<and> \<bar>k + 1\<bar> \<le> 2 ^ 53 \<longrightarrow>
            sinceCursor (generateProfile_settled append' controller (Resolved res) st)
              = Some (Finite (of_int (k + 1))))"
proof -
  have "jsAdd (Finite (of_int k)) (Finite 1) = Finite (of_int (k + 1))"
    if "\<bar>k + 1\<bar> \<le> 2 ^ 53"
    using toDouble_int [OF that] by simp
  with assms show ?thesis
    by (simp add: settled_ok)
qed

theorem C8_cursor_after_success_witness:
  "sinceCursor (generateProfile_settled True 1 (Resolved (okResponse [mojombo])) appending)
     = Some (Finite 2)
   \<and> sinceCursor (generateProfile_settled True 1 (Resolved (okResponse [])) appending)
     = Some (Finite 1024026)"
proof -
  have a: "1 \<notin> set (aborted appending)"
    by (simp add: appending_fields)
  have "ok (okResponse [mojombo])" "json (okResponse [mojombo]) = Inr [mojombo]"
    by (simp_all add: okResponse_def)
  from C8_cursor_after_success [OF a this, where k = 1 and append' = True]
  have 1: "sinceCursor (generateProfile_settled True 1 (Resolved (okResponse [mojombo])) appending)
           = Some (Finite 2)"
    by (simp add: mojombo_def mk_user_def toDouble_numeral)
  have "ok (okResponse ([] :: user list))" "json (okResponse ([] :: user list)) = Inr []"
    by (simp_all add: okResponse_def)
  from C8_cursor_after_success [OF a this, where k = 0 and append' = True]
  have 2: "sinceCursor (generateProfile_settled True 1 (Resolved (okResponse [])) appending)
           = Some (Finite 1024026)"
    by (simp add: appending_fields)
  from 1 2 show ?thesis by blast
qed

subsection \<open>C6, C7 and C10: the detail fetcher\<close>

text \<open>
  C6. After a successful detail fetch for a login, stored at time \<open>t0\<close>, a call for the
  same login less than 5 minutes later does nothing: no request is issued and the state,
  the entry included, is unchanged. A call 5 minutes or more later issues a new request.
  The state \<open>st'\<close> of the second call is any state in which the entry of the login is
  still the one the successful fetch has stored.
\<close>

theorem C6_detail_cache_freshness:
  assumes "ok resp" and "json resp = Inr obj"
    and "detailsMap st' l = detailsMap (fetchUserDetails_settled l (Resolved resp) t0 st) l"
  shows "(now - t0 < 1000 * 60 * 5 \<longrightarrow> fetchUserDetails l now st' = st')
       \<and> (l \<noteq> [] \<and> 1000 * 60 * 5 \<le> now - t0 \<longrightarrow>
            network (fetchUserDetails l now st') = network st' @ [DetailFetch l])"
  using assms
  by (simp add: details_ok fetchUserDetails_def isFresh_def fetchedAtOr0_def)

theorem C6_detail_cache_freshness_witness:
  "fetchUserDetails ''octocat'' 1700000060400 detailReady = detailReady
   \<and> network (fetchUserDetails ''octocat'' 1700000300400 detailReady)
       = network detailReady @ [DetailFetch ''octocat'']"
proof -
  have "ok (okResponse octocatDetails)" "json (okResponse octocatDetails) = Inr octocatDetails"
    by (simp_all add: okResponse_def)
  moreover have "detailsMap detailReady ''octocat''
      = detailsMap (fetchUserDetails_settled ''octocat'' (Resolved (okResponse octocatDetails))
          1700000000400 (fetchUserDetails ''octocat'' 1700000000000 firstPage)) ''octocat''"
    by (simp add: detailReady_def)
  ultimately have
    "(1700000060400 - 1700000000400 < (1000 * 60 * 5 :: int) \<longrightarrow>
        fetchUserDetails ''octocat'' 1700000060400 detailReady = detailReady)"
    "(''octocat'' \<noteq> [] \<and> (1000 * 60 * 5 :: int) \<le> 1700000300400 - 1700000000400 \<longrightarrow>
        network (fetchUserDetails ''octocat'' 1700000300400 detailReady)
          = network detailReady @ [DetailFetch ''octocat''])"
    using C6_detail_cache_freshness [of "okResponse octocatDetails" octocatDetails detailReady
        "''octocat''" 1700000000400 "fetchUserDetails ''octocat'' 1700000000000 firstPage"]
    by blast+
  then show ?thesis
    by simp
qed

text \<open>
  C7. When a detail fetch for a login fails, the entry of this login becomes the error
  entry, and the working list, the cursor, the entry of every other login and the error
  string of the list are unchanged.
\<close>

theorem C7_detail_failure_is_local:
  assumes "(\<exists>err. result = Rejected err)
           \<or> (\<exists>resp. result = Resolved resp \<and> (\<not> ok resp \<or> (\<exists>err. json resp = Inl err)))"
  shows "detailsMap (fetchUserDetails_settled l result now st) l = Some DError
       \<and> (l' \<noteq> l \<longrightarrow> detailsMap (fetchUserDetails_settled l result now st) l' = detailsMap st l')
       \<and> profile (fetchUserDetails_settled l result now st) = profile st
       \<and> sinceCursor (fetchUserDetails_settled l result now st) = sinceCursor st
       \<and> error (fetchUserDetails_settled l result now st) = error st"
proof -
  from detailOutcome_failure [OF assms] obtain err where "detailOutcome result = Inl err"
    by blast
  then show ?thesis
    by (simp add: details_failed)
qed

theorem C7_detail_failure_is_local_witness:
  "detailsMap (fetchUserDetails_settled ''torvalds'' (Resolved rateLimited) 1700000002000
       (fetchUserDetails ''torvalds'' 1700000001000 detailReady)) ''torvalds'' = Some DError
   \<and> detailsMap (fetchUserDetails_settled ''torvalds'' (Resolved rateLimited) 1700000002000
       (fetchUserDetails ''torvalds'' 1700000001000 detailReady)) ''octocat''
     = Some (DReady (Count 9000) (Count 9) [] ''San Francisco'' ''@github'' 1700000000400)
   \<and> profile (fetchUserDetails_settled ''torvalds'' (Resolved rateLimited) 1700000002000
       (fetchUserDetails ''torvalds'' 1700000001000 detailReady)) = [octocat, torvalds]
   \<and> sinceCursor (fetchUserDetails_settled ''torvalds'' (Resolved rateLimited) 1700000002000
       (fetchUserDetails ''torvalds'' 1700000001000 detailReady)) = Some (Finite 1024026)
   \<and> error (fetchUserDetails_settled ''torvalds'' (Resolved rateLimited) 1700000002000
       (fetchUserDetails ''torvalds'' 1700000001000 detailReady)) = []"
proof -
  have "(\<exists>err. (Resolved rateLimited :: details_obj fetch_result) = Rejected err)
        \<or> (\<exists>resp. Resolved rateLimited = Resolved resp
              \<and> (\<not> ok (resp :: details_obj response) \<or> (\<exists>err. json resp = Inl err)))"
    by (simp add: rateLimited_def)
  from C7_detail_failure_is_local [OF this, of "''torvalds''" 1700000002000
      "fetchUserDetails ''torvalds'' 1700000001000 detailReady" "''octocat''"]
  show ?thesis
    by (simp add: fetchUserDetails_def isFresh_def inheritedMembers_def detailReady_fields)
qed

text \<open>
  C10, as the claim has it: an entry in error state has no timestamp, so the freshness
  guard never applies and every later call issues a request. The guard reads a missing
  timestamp as 0 (\<open>existing.fetchedAt || 0\<close>), so it does apply while the clock is less
  than 5 minutes past the epoch: the detail fetch for octocat has failed, the entry is
  the error entry without timestamp, and the call at time 1000 returns at the guard
  without a request.
\<close>

theorem C10_error_entry_fresh_near_epoch:
  "detailsMap detailFailed ''octocat'' = Some DError
   \<and> fetchedAt DError = None
   \<and> network detailFailed = [DetailFetch ''octocat'']
   \<and> fetchUserDetails ''octocat'' 1000 detailFailed = detailFailed"
  by (simp add: detailFailed_eval fetchUserDetails_def isFresh_def fetchedAtOr0_def)

text \<open>
  C10, amended. An entry in error state or in loading state has no timestamp, and
  whenever the clock reads at least 5 minutes past the epoch (300000 ms) the freshness
  guard does not apply to it: a call of the detail fetcher for this login issues a new
  request and marks the entry as loading.
\<close>

theorem C10_error_or_loading_entry_is_refetched:
  assumes "l \<noteq> []" and "detailsMap st l = Some d" and "d = DError \<or> d = DLoading"
    and "1000 * 60 * 5 \<le> now"
  shows "fetchedAt d = None
       \<and> network (fetchUserDetails l now st) = network st @ [DetailFetch l]
       \<and> detailsMap (fetchUserDetails l now st) l = Some DLoading"
  using assms by (auto simp: fetchUserDetails_def isFresh_def fetchedAtOr0_def)

theorem C10_error_or_loading_entry_is_refetched_witness:
  "network (fetchUserDetails ''octocat'' 1700000000000 detailFailed)
     = [DetailFetch ''octocat'', DetailFetch ''octocat'']
   \<and> detailsMap (fetchUserDetails ''octocat'' 1700000000000 detailFailed) ''octocat''
     = Some DLoading
   \<and> network (fetchUserDetails ''octocat'' 1700000000000
        (fetchUserDetails ''octocat'' 1699999999000 initial))
     = [DetailFetch ''octocat'', DetailFetch ''octocat'']"
proof -
  have "detailsMap detailFailed ''octocat'' = Some DError"
    by (simp add: detailFailed_eval)
  from C10_error_or_loading_entry_is_refetched [OF _ this, of 1700000000000]
  have 1: "network (fetchUserDetails ''octocat'' 1700000000000 detailFailed)
             = [DetailFetch ''octocat'', DetailFetch ''octocat'']
           \<and> detailsMap (fetchUserDetails ''octocat'' 1700000000000 detailFailed) ''octocat''
             = Some DLoading"
    by (simp add: detailFailed_eval)
  have p: "fetchUserDetails ''octocat'' 1699999999000 initial
           = initial\<lparr>detailsMap := [''octocat'' \<mapsto> DLoading],
               network := [DetailFetch ''octocat'']\<rparr>"
    by (simp add: fetchUserDetails_def isFresh_def inheritedMembers_def initial_def)
  have "detailsMap (fetchUserDetails ''octocat'' 1699999999000 initial) ''octocat''
        = Some DLoading"
    by (simp add: p)
  from C10_error_or_loading_entry_is_refetched [OF _ this, of 1700000000000]
  have 2: "network (fetchUserDetails ''octocat'' 1700000000000
             (fetchUserDetails ''octocat'' 1699999999000 initial))
           = [DetailFetch ''octocat'', DetailFetch ''octocat'']"
    by (simp add: p)
  from 1 2 show ?thesis by blast
qed

end
